theory Spec2Isabelle
  imports Complex_Main "HOL-Library.AList"
begin

section \<open>JavaScript values\<close>

text \<open>
  The values the server handles at run time: what \<^verbatim>\<open>lighthouse()\<close> resolves to, what
  \<^verbatim>\<open>JSON.parse\<close> returns and what is handed to \<^verbatim>\<open>res.json\<close>. A number is an IEEE double;
  the server never computes with one, it only tests it for falsiness and serialises it, so
  a finite number is represented by the rational it denotes. An object is its list of own
  properties in insertion order. A string is given by its characters, or, when it is what
  \<^verbatim>\<open>JSON.stringify\<close> returned, by the value that JSON text denotes and its indentation
  (\<open>JText\<close>): the characters of a serialisation are the engine's and are not computed here.
\<close>

datatype jsnum = NaN | PosInfinity | NegInfinity | Finite rat

datatype jsval =
    JUndefined
  | JNull
  | JBool bool
  | JNum jsnum
  | JStr string
  | JText jsval nat
  | JArr "jsval list"
  | JObj "(string \<times> jsval) list"

text \<open>\<^verbatim>\<open>!v\<close> is \<open>\<not> truthy v\<close>: the falsy values are undefined, null, false, 0, NaN and the empty string.\<close>

fun truthy :: "jsval \<Rightarrow> bool" where
  "truthy JUndefined = False"
| "truthy JNull = False"
| "truthy (JBool b) = b"
| "truthy (JNum n) = (n \<noteq> NaN \<and> n \<noteq> Finite 0)"
| "truthy (JStr s) = (s \<noteq> [])"
| "truthy (JText v indent) = True"
| "truthy (JArr xs) = True"
| "truthy (JObj kvs) = True"

text \<open>
  The property read \<^verbatim>\<open>v[k]\<close> on a value that is neither null nor undefined (the server reads
  a property only after it has found the value truthy). The names the server reads (lhr,
  finalUrl, fetchTime, categories, audits) are no properties of a string, number, boolean
  or array, nor of \<^verbatim>\<open>Object.prototype\<close>, so the read yields undefined unless the value is
  an object that owns the property.
\<close>

fun get_prop :: "jsval \<Rightarrow> string \<Rightarrow> jsval" where
  "get_prop (JObj kvs) k = (case map_of kvs k of Some v \<Rightarrow> v | None \<Rightarrow> JUndefined)"
| "get_prop v k = JUndefined"

text \<open>\<^verbatim>\<open>typeof v\<close>.\<close>

fun typeof :: "jsval \<Rightarrow> string" where
  "typeof JUndefined = ''undefined''"
| "typeof JNull = ''object''"
| "typeof (JBool b) = ''boolean''"
| "typeof (JNum n) = ''number''"
| "typeof (JStr s) = ''string''"
| "typeof (JText v indent) = ''string''"
| "typeof (JArr xs) = ''object''"
| "typeof (JObj kvs) = ''object''"


text \<open>
  A thrown value: an instance of Error, with its message, its stack text and its other own
  properties in their order (errno, code, syscall and path of an error of the fs module),
  or any other value, since a promise may reject with anything.
\<close>

datatype thrown = Error string string "(string \<times> jsval) list" | NonError jsval

section \<open>Strings\<close>

text \<open>\<^verbatim>\<open>s.split(c)\<close> for a one-character separator: never the empty array.\<close>

fun split_on :: "char \<Rightarrow> string \<Rightarrow> string list" where
  "split_on c [] = [[]]"
| "split_on c (x # xs) =
     (if x = c then [] # split_on c xs
      else (case split_on c xs of w # ws \<Rightarrow> (x # w) # ws | [] \<Rightarrow> [[x]]))"

text \<open>\<^verbatim>\<open>parts.join(sep)\<close>.\<close>

fun join_with :: "string \<Rightarrow> string list \<Rightarrow> string" where
  "join_with sep [] = []"
| "join_with sep [w] = w"
| "join_with sep (w # ws) = w @ sep @ join_with sep ws"

text \<open>\<^verbatim>\<open>s.endsWith(suf)\<close>.\<close>

definition endsWith :: "string \<Rightarrow> string \<Rightarrow> bool" where
  "endsWith s suf = (length suf \<le> length s \<and> drop (length s - length suf) s = suf)"

text \<open>\<^verbatim>\<open>s.replace(pat, rep)\<close> with a string pattern: the first occurrence only.\<close>

fun replace_first :: "string \<Rightarrow> string \<Rightarrow> string \<Rightarrow> string" where
  "replace_first pat rep [] = (if pat = [] then rep else [])"
| "replace_first pat rep (c # cs) =
     (if take (length pat) (c # cs) = pat then rep @ drop (length pat) (c # cs)
      else c # replace_first pat rep cs)"

text \<open>
  \<^verbatim>\<open>a.localeCompare(b)\<close>: negative, zero or positive. The collation is taken to be the order of
  the character codes, which is what the default collation gives on the digits and the
  letter Z that the sort keys of the server's own file names consist of.
\<close>

fun localeCompare :: "string \<Rightarrow> string \<Rightarrow> int" where
  "localeCompare [] [] = 0"
| "localeCompare [] (y # ys) = - 1"
| "localeCompare (x # xs) [] = 1"
| "localeCompare (x # xs) (y # ys) =
     (if (of_char x :: nat) < of_char y then - 1
      else if (of_char y :: nat) < of_char x then 1
      else localeCompare xs ys)"

text \<open>
  \<^verbatim>\<open>xs.sort(cmp)\<close>: the sort is stable, so for a consistent comparator the result is the one
  a stable insertion sort gives (an element goes before the first one it does not follow).
\<close>

fun sort_insert :: "('a \<Rightarrow> 'a \<Rightarrow> int) \<Rightarrow> 'a \<Rightarrow> 'a list \<Rightarrow> 'a list" where
  "sort_insert cmp x [] = [x]"
| "sort_insert cmp x (y # ys) =
     (if cmp x y \<le> 0 then x # y # ys else y # sort_insert cmp x ys)"

fun js_sort :: "('a \<Rightarrow> 'a \<Rightarrow> int) \<Rightarrow> 'a list \<Rightarrow> 'a list" where
  "js_sort cmp [] = []"
| "js_sort cmp (x # xs) = sort_insert cmp x (js_sort cmp xs)"

section \<open>Paths\<close>

text \<open>
  \<^verbatim>\<open>path.join\<close> of Node on POSIX: the non-empty arguments joined by a slash, then normalised.
  Normalising drops empty and \<^verbatim>\<open>.\<close> segments, lets \<^verbatim>\<open>..\<close> remove the segment before it (above
  the root it is dropped, on a relative path it is kept), and keeps a trailing slash.
\<close>

fun normalizeString :: "bool \<Rightarrow> string list \<Rightarrow> string list \<Rightarrow> string list" where
  "normalizeString allowAboveRoot acc [] = rev acc"
| "normalizeString allowAboveRoot acc (s # ss) =
     (if s = [] \<or> s = ''.'' then normalizeString allowAboveRoot acc ss
      else if s = ''..'' then
        (case acc of
           [] \<Rightarrow> normalizeString allowAboveRoot (if allowAboveRoot then [''..''] else []) ss
         | t # ts \<Rightarrow>
             if t = ''..'' then normalizeString allowAboveRoot (''..'' # acc) ss
             else normalizeString allowAboveRoot ts ss)
      else normalizeString allowAboveRoot (s # acc) ss)"

definition normalize_path :: "string \<Rightarrow> string" where
  "normalize_path p =
     (if p = [] then ''.''
      else
        let isAbsolute = (hd p = CHR ''/'');
            trailingSeparator = (last p = CHR ''/'');
            segs = normalizeString (\<not> isAbsolute) [] (split_on CHR ''/'' p)
        in if segs = [] then (if isAbsolute then ''/'' else if trailingSeparator then ''./'' else ''.'')
           else (if isAbsolute then ''/'' else []) @ join_with ''/'' segs
                @ (if trailingSeparator then ''/'' else []))"

definition join :: "string \<Rightarrow> string \<Rightarrow> string" where
  "join a b = normalize_path (join_with ''/'' (filter (\<lambda>s. s \<noteq> []) [a, b]))"

text \<open>The directory part and the last segment of a normalised absolute path.\<close>

definition dirname :: "string \<Rightarrow> string" where
  "dirname p =
     (let d = join_with ''/'' (butlast (split_on CHR ''/'' p)) in if d = [] then ''/'' else d)"

definition basename :: "string \<Rightarrow> string" where
  "basename p = last (split_on CHR ''/'' p)"

section \<open>JSON\<close>

text \<open>
  What \<^verbatim>\<open>JSON.stringify\<close> keeps of a value: a property whose value is undefined is left out
  of an object, undefined in an array and a number that is not finite become null.
\<close>

fun json_num :: "jsnum \<Rightarrow> jsval" where
  "json_num (Finite q) = JNum (Finite q)"
| "json_num n = JNull"

fun json_norm :: "jsval \<Rightarrow> jsval" where
  "json_norm JUndefined = JNull"
| "json_norm JNull = JNull"
| "json_norm (JBool b) = JBool b"
| "json_norm (JNum n) = json_num n"
| "json_norm (JStr s) = JStr s"
| "json_norm (JText v indent) = JText v indent"
| "json_norm (JArr xs) = JArr (map json_norm xs)"
| "json_norm (JObj kvs) =
     JObj (map (\<lambda>(k, v). (k, json_norm v)) (filter (\<lambda>(k, v). v \<noteq> JUndefined) kvs))"

text \<open>
  \<^verbatim>\<open>JSON.stringify(v, names)\<close> with a list of property names: of every object in the value, the
  value itself included, only the properties named in the list are kept, in the order of
  the list (a name listed twice counts once).
\<close>

fun pick :: "string list \<Rightarrow> jsval \<Rightarrow> jsval" where
  "pick names (JArr xs) = JArr (map (pick names) xs)"
| "pick names (JObj kvs) =
     JObj (List.map_filter
             (\<lambda>k. map_option (Pair k) (map_of (map (\<lambda>(k', v). (k', pick names v)) kvs) k))
             (rev (remdups (rev names))))"
| "pick names v = v"

text \<open>
  The text of a file. Serialising and parsing are the engine's, not
  the server's, so a JSON text is represented by the value it denotes and the indentation
  it was written with; any other text is one that \<^verbatim>\<open>JSON.parse\<close> rejects with a SyntaxError.
  Two JSON texts are the same bytes exactly when they denote the same value with the same
  indentation.
\<close>

datatype document = JsonText jsval nat | Unparseable string

text \<open>The text as a string value of the program.\<close>

fun as_string :: "document \<Rightarrow> jsval" where
  "as_string (JsonText v indent) = JText v indent"
| "as_string (Unparseable s) = JStr s"

text \<open>\<^verbatim>\<open>JSON.stringify(v, null, indent)\<close>; it returns undefined (here None) for undefined.\<close>

definition JSON_stringify :: "jsval \<Rightarrow> nat \<Rightarrow> document option" where
  "JSON_stringify v indent = (if v = JUndefined then None else Some (JsonText (json_norm v) indent))"

text \<open>\<^verbatim>\<open>JSON.parse(t)\<close>; None when it throws.\<close>

fun JSON_parse :: "document \<Rightarrow> jsval option" where
  "JSON_parse (JsonText v indent) = Some v"
| "JSON_parse (Unparseable s) = None"

section \<open>The file system\<close>

text \<open>
  The tree as the fs module sees it: the normalised absolute paths that exist, each a
  directory or a file with its text, in the order the directory listing gives them. The
  root always exists. A path with a trailing slash names a directory only.
\<close>

datatype node = Dir | File document

text \<open>What a call of the fs module fails with: the error code, the system call and the path.\<close>

datatype fs_code = EEXIST | ENOENT | ENOTDIR | EISDIR

datatype fs_failure = Failure fs_code string "string option"

type_synonym fs = "(string \<times> node) list"

definition stat :: "fs \<Rightarrow> string \<Rightarrow> node option" where
  "stat fs p =
     (if p = ''/'' then Some Dir
      else if p \<noteq> [] \<and> last p = CHR ''/'' then
        (case map_of fs (butlast p) of Some Dir \<Rightarrow> Some Dir | _ \<Rightarrow> None)
      else map_of fs p)"

definition existsSync :: "fs \<Rightarrow> string \<Rightarrow> bool" where
  "existsSync fs p = (stat fs p \<noteq> None)"

text \<open>\<^verbatim>\<open>mkdirSync(p)\<close>: the path must be new and its parent a directory.\<close>

definition mkdirSync :: "fs \<Rightarrow> string \<Rightarrow> fs_failure + fs" where
  "mkdirSync fs p =
     (if stat fs p \<noteq> None then Inl (Failure EEXIST ''mkdir'' (Some p))
      else case stat fs (dirname p) of
             Some Dir \<Rightarrow> Inr (fs @ [(p, Dir)])
           | Some (File d) \<Rightarrow> Inl (Failure ENOTDIR ''mkdir'' (Some p))
           | None \<Rightarrow> Inl (Failure ENOENT ''mkdir'' (Some p)))"

text \<open>
  \<^verbatim>\<open>mkdirSync(p, { recursive: true })\<close>: every missing directory on the way is created; a file
  on the way, or at the path itself, is an error; an existing directory is not.
\<close>

definition ancestors :: "string \<Rightarrow> string list" where
  "ancestors p =
     (let segs = filter (\<lambda>s. s \<noteq> []) (split_on CHR ''/'' p)
      in map (\<lambda>k. ''/'' @ join_with ''/'' (take k segs)) [1 ..< Suc (length segs)])"

fun mkdir_each :: "fs \<Rightarrow> string list \<Rightarrow> fs_failure + fs" where
  "mkdir_each fs [] = Inr fs"
| "mkdir_each fs (p # ps) =
     (case stat fs p of
        Some Dir \<Rightarrow> mkdir_each fs ps
      | Some (File d) \<Rightarrow> Inl (Failure (if ps = [] then EEXIST else ENOTDIR) ''mkdir'' (Some p))
      | None \<Rightarrow> mkdir_each (fs @ [(p, Dir)]) ps)"

definition mkdirSync_recursive :: "fs \<Rightarrow> string \<Rightarrow> fs_failure + fs" where
  "mkdirSync_recursive fs p = mkdir_each fs (ancestors p)"

text \<open>
  \<^verbatim>\<open>writeFileSync(p, d)\<close>: creates the file or replaces its text; the parent must be a directory,
  and a path with a trailing slash cannot be opened as a file.
\<close>

definition writeFileSync :: "fs \<Rightarrow> string \<Rightarrow> document \<Rightarrow> fs_failure + fs" where
  "writeFileSync fs p d =
     (if p = [] \<or> last p = CHR ''/'' then Inl (Failure EISDIR ''open'' (Some p))
      else case stat fs p of
        Some Dir \<Rightarrow> Inl (Failure EISDIR ''open'' (Some p))
      | _ \<Rightarrow>
         (case stat fs (dirname p) of
            Some Dir \<Rightarrow> Inr (AList.update p (File d) fs)
          | Some (File d') \<Rightarrow> Inl (Failure ENOTDIR ''open'' (Some p))
          | None \<Rightarrow> Inl (Failure ENOENT ''open'' (Some p))))"

text \<open>\<^verbatim>\<open>readFileSync(p, 'utf8')\<close>.\<close>

definition readFileSync :: "fs \<Rightarrow> string \<Rightarrow> fs_failure + document" where
  "readFileSync fs p =
     (case stat fs p of
        Some (File d) \<Rightarrow> Inr d
      | Some Dir \<Rightarrow> Inl (Failure EISDIR ''read'' None)
      | None \<Rightarrow> Inl (Failure ENOENT ''open'' (Some p)))"

text \<open>\<^verbatim>\<open>readdirSync(d)\<close>: the names of the entries of the directory.\<close>

definition readdirSync :: "fs \<Rightarrow> string \<Rightarrow> fs_failure + string list" where
  "readdirSync fs d =
     (case stat fs d of
        Some Dir \<Rightarrow>
          Inr (map (\<lambda>(p, n). basename p)
                 (filter (\<lambda>(p, n). p \<noteq> ''/'' \<and> dirname p = (if d \<noteq> ''/'' \<and> last d = CHR ''/'' then butlast d else d)) fs))
      | Some (File t) \<Rightarrow> Inl (Failure ENOTDIR ''scandir'' (Some d))
      | None \<Rightarrow> Inl (Failure ENOENT ''scandir'' (Some d)))"

section \<open>Dates\<close>

text \<open>
  What \<^verbatim>\<open>new Date()\<close> reads off the clock, in its UTC fields. \<^verbatim>\<open>toISOString\<close> prints them as
  YYYY-MM-DDTHH:mm:ss.sssZ (years 0 to 9999), so that the earlier of two dates has the
  smaller string.
\<close>

record date =
  year :: nat
  month :: nat
  day :: nat
  hours :: nat
  minutes :: nat
  seconds :: nat
  milliseconds :: nat

fun digits :: "nat \<Rightarrow> string" where
  "digits n = (if n < 10 then [char_of (48 + n)] else digits (n div 10) @ [char_of (48 + n mod 10)])"

declare digits.simps [simp del]

definition pad :: "nat \<Rightarrow> nat \<Rightarrow> string" where
  "pad w n = replicate (w - length (digits n)) CHR ''0'' @ digits n"

definition toISOString :: "date \<Rightarrow> string" where
  "toISOString d =
     pad 4 (year d) @ ''-'' @ pad 2 (month d) @ ''-'' @ pad 2 (day d) @ ''T'' @
     pad 2 (hours d) @ '':'' @ pad 2 (minutes d) @ '':'' @ pad 2 (seconds d) @ ''.'' @
     pad 3 (milliseconds d) @ ''Z''"

section \<open>decodeURIComponent\<close>

text \<open>
  The engine's \<^verbatim>\<open>decodeURIComponent\<close> on a string held as its UTF-8 bytes: every \<^verbatim>\<open>%XX\<close> is
  replaced by the octet it names; a \<^verbatim>\<open>%\<close> that is not followed by two hexadecimal digits, or
  escaped octets above 127 that are not a well-formed UTF-8 sequence, throw a URIError
  (here None).
\<close>

definition hex_digit :: "char \<Rightarrow> nat option" where
  "hex_digit c =
     (let n = (of_char c :: nat)
      in if 48 \<le> n \<and> n \<le> 57 then Some (n - 48)
         else if 65 \<le> n \<and> n \<le> 70 then Some (n - 55)
         else if 97 \<le> n \<and> n \<le> 102 then Some (n - 87)
         else None)"

datatype uri_item = Literal char | Escaped nat

fun uri_items :: "string \<Rightarrow> uri_item list option" where
  "uri_items [] = Some []"
| "uri_items (c # cs) =
     (if c = CHR ''%'' then
        (case cs of
           h1 # h2 # rest \<Rightarrow>
             (case (hex_digit h1, hex_digit h2) of
                (Some a, Some b) \<Rightarrow> map_option ((#) (Escaped (16 * a + b))) (uri_items rest)
              | _ \<Rightarrow> None)
         | _ \<Rightarrow> None)
      else map_option ((#) (Literal c)) (uri_items cs))"

text \<open>The octets a lead octet announces (0 when it is none), and the well-formed sequences.\<close>

definition utf8_len :: "nat \<Rightarrow> nat" where
  "utf8_len b =
     (if b < 128 then 1 else if 194 \<le> b \<and> b < 224 then 2 else if 224 \<le> b \<and> b < 240 then 3
      else if 240 \<le> b \<and> b < 245 then 4 else 0)"

definition continuation :: "nat \<Rightarrow> bool" where
  "continuation b = (128 \<le> b \<and> b < 192)"

fun utf8_valid :: "nat list \<Rightarrow> bool" where
  "utf8_valid [b0, b1] = (194 \<le> b0 \<and> b0 < 224 \<and> continuation b1)"
| "utf8_valid [b0, b1, b2] =
     (224 \<le> b0 \<and> b0 < 240 \<and> continuation b1 \<and> continuation b2 \<and>
      (if b0 = 224 then 160 else 128) \<le> b1 \<and> b1 < (if b0 = 237 then 160 else 192))"
| "utf8_valid [b0, b1, b2, b3] =
     (240 \<le> b0 \<and> b0 < 245 \<and> continuation b1 \<and> continuation b2 \<and> continuation b3 \<and>
      (if b0 = 240 then 144 else 128) \<le> b1 \<and> b1 < (if b0 = 244 then 144 else 192))"
| "utf8_valid bs = False"

fun escaped_octet :: "uri_item \<Rightarrow> nat option" where
  "escaped_octet (Escaped b) = Some b"
| "escaped_octet (Literal c) = None"

function uri_octets :: "uri_item list \<Rightarrow> string option" where
  "uri_octets [] = Some []"
| "uri_octets (Literal c # ts) = map_option ((#) c) (uri_octets ts)"
| "uri_octets (Escaped b # ts) =
     (if b < 128 then map_option ((#) (char_of b)) (uri_octets ts)
      else
        let n = utf8_len b; more = map escaped_octet (take (n - 1) ts)
        in if n < 2 \<or> length more < n - 1 \<or> None \<in> set more \<or> \<not> utf8_valid (b # map the more)
           then None
           else map_option ((@) (map char_of (b # map the more))) (uri_octets (drop (n - 1) ts)))"
  by pat_completeness auto
termination
  by (relation "measure length") auto

definition decodeURIComponent :: "string \<Rightarrow> string option" where
  "decodeURIComponent s = (case uri_items s of None \<Rightarrow> None | Some items \<Rightarrow> uri_octets items)"

section \<open>The server\<close>

text \<open>
  What a request meets outside the server: the URL parser of the engine (\<^verbatim>\<open>new URL(s)\<close> throws
  or not), chrome-launcher (\<^verbatim>\<open>launch\<close> rejects, or resolves to a session on a port),
  lighthouse (rejects, or resolves to a result), \<^verbatim>\<open>chrome.kill()\<close> (rejects or not), the two
  clock readings of a successful audit, the errors the operating system raises on a file
  system call whatever the tree looks like (no space left, permission denied), and the
  frames the engine writes into the stack of an Error made with a given message.
\<close>

datatype syscall = SysMkdir | SysWrite | SysRead | SysReaddir

record env =
  URL_ok :: "string \<Rightarrow> bool"
  chrome_launch :: "thrown + nat"
  run_lighthouse :: "string \<Rightarrow> nat \<Rightarrow> jsval \<Rightarrow> thrown + jsval"
  chrome_kill :: "thrown option"
  now_saved :: date
  now_replied :: date
  io_fault :: "syscall \<Rightarrow> thrown option"
  stack_frames :: "string \<Rightarrow> string"

text \<open>
  An Error made by the engine or by the server: \<^verbatim>\<open>new Error(msg)\<close>, a TypeError, a URIError.
  Its stack is the name, the message and the frames.
\<close>

definition make_Error :: "env \<Rightarrow> string \<Rightarrow> string \<Rightarrow> thrown" where
  "make_Error env name msg = Error msg (name @ '': '' @ msg @ stack_frames env msg) []"

definition new_Error :: "env \<Rightarrow> string \<Rightarrow> thrown" where
  "new_Error env msg = make_Error env ''Error'' msg"

text \<open>The Error the fs module throws for a failed call, with the own properties Node gives it.\<close>

fun code_name :: "fs_code \<Rightarrow> string" where
  "code_name EEXIST = ''EEXIST''"
| "code_name ENOENT = ''ENOENT''"
| "code_name ENOTDIR = ''ENOTDIR''"
| "code_name EISDIR = ''EISDIR''"

fun code_text :: "fs_code \<Rightarrow> string" where
  "code_text EEXIST = ''file already exists''"
| "code_text ENOENT = ''no such file or directory''"
| "code_text ENOTDIR = ''not a directory''"
| "code_text EISDIR = ''illegal operation on a directory''"

fun errno :: "fs_code \<Rightarrow> rat" where
  "errno EEXIST = - 17"
| "errno ENOENT = - 2"
| "errno ENOTDIR = - 20"
| "errno EISDIR = - 21"

fun fs_Error :: "env \<Rightarrow> fs_failure \<Rightarrow> thrown" where
  "fs_Error env (Failure c call path) =
     (let msg = code_name c @ '': '' @ code_text c @ '', '' @ call
                @ (case path of None \<Rightarrow> [] | Some p \<Rightarrow> '' '' @ [CHR 0x27] @ p @ [CHR 0x27])
      in Error msg (''Error: '' @ msg @ stack_frames env msg)
           ([(''errno'', JNum (Finite (errno c))), (''code'', JStr (code_name c)),
             (''syscall'', JStr call)]
            @ (case path of None \<Rightarrow> [] | Some p \<Rightarrow> [(''path'', JStr p)])))"

text \<open>A call of the fs module: the fault of the operating system, if any, else what the tree gives.\<close>

definition sys :: "env \<Rightarrow> syscall \<Rightarrow> fs_failure + 'a \<Rightarrow> thrown + 'a" where
  "sys env c r =
     (case io_fault env c of
        Some t \<Rightarrow> Inl t
      | None \<Rightarrow> (case r of Inl f \<Rightarrow> Inl (fs_Error env f) | Inr x \<Rightarrow> Inr x))"

text \<open>\<^verbatim>\<open>process.cwd()\<close>, an absolute normalised path, and \<^verbatim>\<open>reportsDir\<close> (line 11).\<close>

record config =
  cwd :: string

definition reportsDir :: "config \<Rightarrow> string" where
  "reportsDir cfg = join (cwd cfg) ''reports''"

text \<open>Lines 12 to 14: the reports directory is made when the module is loaded.\<close>

definition startup :: "config \<Rightarrow> env \<Rightarrow> fs \<Rightarrow> thrown + fs" where
  "startup cfg env fs =
     (if \<not> existsSync fs (reportsDir cfg) then sys env SysMkdir (mkdirSync fs (reportsDir cfg))
      else Inr fs)"

text \<open>
  A query parameter as Express hands it over: a string, an array or an object (absent is
  None). Express 4 parses the query with qs and lets a key shadow a property of
  \<^verbatim>\<open>Object.prototype\<close>, so an object may own a key \<^verbatim>\<open>toString\<close>; what it holds there is a
  string, an array or an object, never a function.
\<close>

datatype qval = QStr string | QArr "qval list" | QObj "(string \<times> qval) list"

fun qtruthy :: "qval \<Rightarrow> bool" where
  "qtruthy (QStr s) = (s \<noteq> [])"
| "qtruthy (QArr xs) = True"
| "qtruthy (QObj kvs) = True"

text \<open>
  The conversion of a value to a string when an array is joined: an array is its elements
  joined by commas, an object is \<^verbatim>\<open>[object Object]\<close>, and an object that owns a key \<^verbatim>\<open>toString\<close>
  cannot be converted: a TypeError (here Inl, with its message).
\<close>

fun ToString :: "qval \<Rightarrow> string + string"
  and ToStrings :: "qval list \<Rightarrow> string + string list" where
  "ToString (QStr s) = Inr s"
| "ToString (QArr xs) =
     (case ToStrings xs of Inl msg \<Rightarrow> Inl msg | Inr ws \<Rightarrow> Inr (join_with '','' ws))"
| "ToString (QObj kvs) =
     (if map_of kvs ''toString'' \<noteq> None then Inl ''Cannot convert object to primitive value''
      else Inr ''[object Object]'')"
| "ToStrings [] = Inr []"
| "ToStrings (x # xs) =
     (case ToString x of
        Inl msg \<Rightarrow> Inl msg
      | Inr w \<Rightarrow> (case ToStrings xs of Inl msg \<Rightarrow> Inl msg | Inr ws \<Rightarrow> Inr (w # ws)))"

text \<open>Line 51: \<^verbatim>\<open>url.toString()\<close>, the method call; on an object that owns a key \<^verbatim>\<open>toString\<close> it is no function.\<close>

definition qtoString :: "qval \<Rightarrow> string + string" where
  "qtoString url =
     (case url of
        QObj kvs \<Rightarrow>
          if map_of kvs ''toString'' \<noteq> None then Inl ''url.toString is not a function''
          else Inr ''[object Object]''
      | _ \<Rightarrow> ToString url)"

fun query_value :: "qval \<Rightarrow> jsval" where
  "query_value (QStr s) = JStr s"
| "query_value (QArr xs) = JArr (map query_value xs)"
| "query_value (QObj kvs) = JObj (map (\<lambda>(k, v). (k, query_value v)) kvs)"

record audit_request =
  query_url :: "qval option"
  query_locale :: "qval option"

text \<open>Line 43: \<^verbatim>\<open>req.query.locale || 'en'\<close>.\<close>

definition locale_of :: "audit_request \<Rightarrow> jsval" where
  "locale_of req =
     (case query_locale req of
        None \<Rightarrow> JStr ''en''
      | Some l \<Rightarrow> if qtruthy l then query_value l else JStr ''en'')"

text \<open>
  Lines 42 to 60, the handling of the url parameter: the request is answered with a 400 and
  a message, or \<^verbatim>\<open>url.toString()\<close> or \<^verbatim>\<open>decodeURIComponent\<close> throws (to the outer catch: line 51
  stands outside the inner try), or the decoded URL goes on to the launch.
\<close>

datatype input_check = Rejected string | Threw thrown | Accepted string

definition check_url :: "env \<Rightarrow> audit_request \<Rightarrow> input_check" where
  "check_url env req =
     (case query_url req of
        None \<Rightarrow>
          Rejected ''URL is required as a query parameter. Example: /nsa-audit?url=https://example.com''
      | Some url \<Rightarrow>
         if \<not> qtruthy url then
           Rejected ''URL is required as a query parameter. Example: /nsa-audit?url=https://example.com''
         else
           (case qtoString url of
              Inl msg \<Rightarrow> Threw (make_Error env ''TypeError'' msg)
            | Inr encoded \<Rightarrow>
               (case decodeURIComponent encoded of
                  None \<Rightarrow> Threw (make_Error env ''URIError'' ''URI malformed'')
                | Some decodedUrl \<Rightarrow>
                   if \<not> URL_ok env decodedUrl then
                     Rejected ''Invalid URL format. Please provide a valid URL starting with http:// or https://''
                   else Accepted decodedUrl)))"

text \<open>
  What a handler does: the response it sends (\<^verbatim>\<open>res.status(n).json(v)\<close>, status 200 unless
  set; a property of the body whose value is undefined is left out when the body is
  serialised), the file system it leaves, and in their order the calls it makes to the
  world outside: \<^verbatim>\<open>launch\<close>, \<^verbatim>\<open>lighthouse\<close>, \<^verbatim>\<open>chrome.kill\<close>, the sending of the response, and each
  \<^verbatim>\<open>console.error\<close> with its first argument (\<^verbatim>\<open>console.log\<close> is left out).
\<close>

record response =
  status :: nat
  body :: jsval

datatype event = Launch | Lighthouse | Kill | Respond nat | ConsoleError string

record outcome =
  reply :: response
  disk :: fs
  events :: "event list"

subsection \<open>GET /nsa-audit\<close>

text \<open>Lines 47 to 49 and 57 to 59: the two 400 responses.\<close>

definition bad_request :: "string \<Rightarrow> fs \<Rightarrow> outcome" where
  "bad_request msg fs =
     \<lparr>reply = \<lparr>status = 400, body = JObj [(''error'', JStr msg)]\<rparr>, disk = fs,
      events = [Respond 400]\<rparr>"

text \<open>Lines 192 and 212: \<^verbatim>\<open>error instanceof Error ? error.message : 'Unknown error occurred'\<close>.\<close>

fun error_message :: "thrown \<Rightarrow> string" where
  "error_message (Error msg stk props) = msg"
| "error_message (NonError v) = ''Unknown error occurred''"

text \<open>
  \<^verbatim>\<open>Object.getOwnPropertyNames(v)\<close> of an object or array, and an Error as the object of its
  own properties: the stack, the message, and the others.
\<close>

fun own_names :: "jsval \<Rightarrow> string list" where
  "own_names (JObj kvs) = map fst kvs"
| "own_names (JArr xs) = map digits [0 ..< length xs] @ [''length'']"
| "own_names v = []"

definition error_object :: "string \<Rightarrow> string \<Rightarrow> (string \<times> jsval) list \<Rightarrow> jsval" where
  "error_object msg stk props = JObj ((''stack'', JStr stk) # (''message'', JStr msg) # props)"

text \<open>\<^verbatim>\<open>JSON.stringify(v, Object.getOwnPropertyNames(v))\<close>, a string.\<close>

definition stringify_own :: "jsval \<Rightarrow> jsval" where
  "stringify_own v = JText (json_norm (pick (own_names v) v)) 0"

text \<open>
  Line 193, the details of the inner catch:
  \<^verbatim>\<open>error && typeof error === 'object' ? JSON.stringify(error, Object.getOwnPropertyNames(error)) : error\<close>.
\<close>

fun inner_details :: "thrown \<Rightarrow> jsval" where
  "inner_details (Error msg stk props) = stringify_own (error_object msg stk props)"
| "inner_details (NonError v) =
     (if truthy v \<and> typeof v = ''object'' then stringify_own v else v)"

text \<open>Line 213, the details of the outer catch: \<^verbatim>\<open>error instanceof Error ? error.stack : undefined\<close>.\<close>

fun outer_details :: "thrown \<Rightarrow> jsval" where
  "outer_details (Error msg stk props) = JStr stk"
| "outer_details (NonError v) = JUndefined"

text \<open>Lines 187 to 196: the response of the inner catch.\<close>

definition inner_catch :: "thrown \<Rightarrow> response" where
  "inner_catch error =
     \<lparr>status = 500,
      body = JObj [(''success'', JBool False), (''error'', JStr (error_message error)),
                   (''details'', inner_details error)]\<rparr>"

text \<open>Lines 208 to 215: the outer catch, reached by a throw before the inner try.\<close>

definition outer_catch :: "thrown \<Rightarrow> fs \<Rightarrow> event list \<Rightarrow> outcome" where
  "outer_catch error fs evs =
     \<lparr>reply = \<lparr>status = 500,
                body = JObj [(''success'', JBool False), (''error'', JStr (error_message error)),
                             (''details'', outer_details error)]\<rparr>,
      disk = fs,
      events = evs @ [ConsoleError ''Lighthouse audit failed:'', Respond 500]\<rparr>"

text \<open>
  Lines 138 to 153: the validation of the result; the message of the Error it throws, if
  any.
\<close>

definition requiredProperties :: "string list" where
  "requiredProperties = [''finalUrl'', ''fetchTime'', ''categories'', ''audits'']"

fun first_missing :: "jsval \<Rightarrow> string list \<Rightarrow> string option" where
  "first_missing lhr [] = None"
| "first_missing lhr (prop # props) =
     (if \<not> truthy (get_prop lhr prop) then Some prop else first_missing lhr props)"

definition validate :: "jsval \<Rightarrow> string option" where
  "validate results =
     (if \<not> truthy results then Some ''Lighthouse returned null results object''
      else if \<not> truthy (get_prop results ''lhr'') then
        Some ''Lighthouse results missing lhr property''
      else case first_missing (get_prop results ''lhr'') requiredProperties of
             Some prop \<Rightarrow> Some (''Lighthouse results missing required property: '' @ prop)
           | None \<Rightarrow> None)"

text \<open>Line 162: \<^verbatim>\<open>new Date().toISOString().replace(/[:.]/g, '-')\<close>.\<close>

definition timestamp_of :: "date \<Rightarrow> string" where
  "timestamp_of d =
     map (\<lambda>c. if c = CHR '':'' \<or> c = CHR ''.'' then CHR ''-'' else c) (toISOString d)"

text \<open>
  Line 170: \<^verbatim>\<open>writeFileSync(reportPath, JSON.stringify(results.lhr, null, 2))\<close>; writeFileSync
  throws a TypeError when it is handed undefined.
\<close>

definition save_report :: "env \<Rightarrow> fs \<Rightarrow> string \<Rightarrow> jsval \<Rightarrow> thrown + fs" where
  "save_report env fs reportPath lhr =
     (case JSON_stringify lhr 2 of
        None \<Rightarrow>
          Inl (make_Error env ''TypeError''
                 (''The '' @ [CHR 0x22] @ ''data'' @ [CHR 0x22] @
                  '' argument must be of type string or an instance of Buffer, TypedArray, or DataView. Received undefined''))
      | Some d \<Rightarrow> sys env SysWrite (writeFileSync fs reportPath d))"

text \<open>Line 175: \<^verbatim>\<open>writeError instanceof Error ? writeError.message : 'Unknown error'\<close>.\<close>

fun write_message :: "thrown \<Rightarrow> string" where
  "write_message (Error msg stk props) = msg"
| "write_message (NonError v) = ''Unknown error''"

text \<open>Lines 162 and 163: the name of the report file; lines 165 to 167: the directory is made if it is not there.\<close>

definition report_name :: "env \<Rightarrow> string" where
  "report_name env = ''lighthouse-report-'' @ timestamp_of (now_saved env) @ ''.json''"

definition ensure_reportsDir :: "config \<Rightarrow> env \<Rightarrow> fs \<Rightarrow> thrown + fs" where
  "ensure_reportsDir cfg env fs =
     (if \<not> existsSync fs (reportsDir cfg)
      then sys env SysMkdir (mkdirSync_recursive fs (reportsDir cfg))
      else Inr fs)"

text \<open>
  Lines 131 to 186, the inner try block: the response it sends, or the value it throws to
  the inner catch, with the file system it leaves and the calls it made.
\<close>

definition audit_try ::
  "config \<Rightarrow> env \<Rightarrow> string \<Rightarrow> jsval \<Rightarrow> nat \<Rightarrow> fs \<Rightarrow> (thrown + response) \<times> fs \<times> event list" where
  "audit_try cfg env decodedUrl locale port fs =
     (case run_lighthouse env decodedUrl port locale of
        Inl error \<Rightarrow> (Inl error, fs, [Lighthouse])
      | Inr results \<Rightarrow>
         (case validate results of
            Some msg \<Rightarrow> (Inl (new_Error env msg), fs, [Lighthouse, ConsoleError msg])
          | None \<Rightarrow>
             (let lhr = get_prop results ''lhr'';
                  reportPath = join (reportsDir cfg) (report_name env)
              in case ensure_reportsDir cfg env fs of
                   Inl error \<Rightarrow> (Inl error, fs, [Lighthouse])
                 | Inr fs1 \<Rightarrow>
                    (case save_report env fs1 reportPath lhr of
                       Inl writeError \<Rightarrow>
                         (Inl (new_Error env (''Failed to save report: '' @ write_message writeError)),
                          fs1, [Lighthouse, ConsoleError ''Error saving report:''])
                     | Inr fs2 \<Rightarrow>
                         (Inr \<lparr>status = 200,
                               body = JObj [(''success'', JBool True),
                                            (''url'', JStr decodedUrl),
                                            (''timestamp'', JStr (toISOString (now_replied env))),
                                            (''locale'', locale),
                                            (''lighthouseResult'', lhr),
                                            (''reportPath'',
                                             JStr (''/reports/'' @ report_name env))]\<rparr>,
                          fs2, [Lighthouse])))))"

text \<open>Lines 197 to 206: the finally block.\<close>

definition release :: "env \<Rightarrow> event list" where
  "release env =
     (case chrome_kill env of
        None \<Rightarrow> [Kill]
      | Some killError \<Rightarrow> [Kill, ConsoleError ''Error killing Chrome:''])"

text \<open>Lines 40 to 216: the handler.\<close>

definition nsa_audit :: "config \<Rightarrow> env \<Rightarrow> audit_request \<Rightarrow> fs \<Rightarrow> outcome" where
  "nsa_audit cfg env req fs =
     (case check_url env req of
        Rejected msg \<Rightarrow> bad_request msg fs
      | Threw error \<Rightarrow> outer_catch error fs []
      | Accepted decodedUrl \<Rightarrow>
         (case chrome_launch env of
            Inl error \<Rightarrow> outer_catch error fs [Launch]
          | Inr port \<Rightarrow>
             (case audit_try cfg env decodedUrl (locale_of req) port fs of
                (Inr sent, fs', evs) \<Rightarrow>
                  \<lparr>reply = sent, disk = fs',
                   events = Launch # evs @ [Respond 200] @ release env\<rparr>
              | (Inl error, fs', evs) \<Rightarrow>
                  \<lparr>reply = inner_catch error, disk = fs',
                   events = Launch # evs
                     @ [ConsoleError ''Lighthouse audit failed:'', Respond 500]
                     @ release env\<rparr>)))"

subsection \<open>GET /reports\<close>

text \<open>Lines 513 to 515: the comparator of the sort.\<close>

definition sort_key :: "string \<Rightarrow> string" where
  "sort_key a =
     (let t = replace_first ''.json'' [] (last (split_on CHR ''-'' a)) in if t = [] then [] else t)"

definition newest_first :: "string \<Rightarrow> string \<Rightarrow> int" where
  "newest_first a b = localeCompare (sort_key b) (sort_key a)"

text \<open>Lines 502 to 524.\<close>

definition reports_list :: "config \<Rightarrow> env \<Rightarrow> fs \<Rightarrow> outcome" where
  "reports_list cfg env fs =
     (case ensure_reportsDir cfg env fs of
        Inl e \<Rightarrow>
          \<lparr>reply = \<lparr>status = 500, body = JObj [(''error'', JStr ''Failed to list reports'')]\<rparr>,
           disk = fs, events = [ConsoleError ''Error listing reports:'', Respond 500]\<rparr>
      | Inr fs1 \<Rightarrow>
         (case sys env SysReaddir (readdirSync fs1 (reportsDir cfg)) of
            Inl e \<Rightarrow>
              \<lparr>reply = \<lparr>status = 500, body = JObj [(''error'', JStr ''Failed to list reports'')]\<rparr>,
               disk = fs1, events = [ConsoleError ''Error listing reports:'', Respond 500]\<rparr>
          | Inr names \<Rightarrow>
              \<lparr>reply = \<lparr>status = 200,
                         body = JArr (map JStr (js_sort newest_first
                                  (filter (\<lambda>file. endsWith file ''.json'') names)))\<rparr>,
               disk = fs1, events = [Respond 200]\<rparr>))"

subsection \<open>GET /reports/:filename\<close>

text \<open>Lines 526 to 542; \<open>filename\<close> is \<^verbatim>\<open>req.params.filename\<close>, decoded by the router.\<close>

definition reports_get :: "config \<Rightarrow> env \<Rightarrow> string \<Rightarrow> fs \<Rightarrow> outcome" where
  "reports_get cfg env filename fs =
     (let reportPath = join (reportsDir cfg) filename
      in if \<not> existsSync fs reportPath then
           \<lparr>reply = \<lparr>status = 404, body = JObj [(''error'', JStr ''Report not found'')]\<rparr>,
            disk = fs, events = [ConsoleError ''Report not found:'', Respond 404]\<rparr>
         else
           (case sys env SysRead (readFileSync fs reportPath) of
              Inl e \<Rightarrow>
                \<lparr>reply = \<lparr>status = 500, body = JObj [(''error'', JStr ''Failed to read report'')]\<rparr>,
                 disk = fs, events = [ConsoleError ''Error reading report:'', Respond 500]\<rparr>
            | Inr t \<Rightarrow>
               (case JSON_parse t of
                  None \<Rightarrow>
                    \<lparr>reply = \<lparr>status = 500, body = JObj [(''error'', JStr ''Failed to read report'')]\<rparr>,
                     disk = fs, events = [ConsoleError ''Error reading report:'', Respond 500]\<rparr>
                | Some report \<Rightarrow>
                    \<lparr>reply = \<lparr>status = 200, body = report\<rparr>, disk = fs, events = [Respond 200]\<rparr>)))"

subsection \<open>Reading a trace\<close>

text \<open>The calls made before the response is sent, and those made after it.\<close>

fun is_Respond :: "event \<Rightarrow> bool" where
  "is_Respond (Respond n) = True"
| "is_Respond e = False"

definition before_reply :: "event list \<Rightarrow> event list" where
  "before_reply evs = takeWhile (\<lambda>e. \<not> is_Respond e) evs"

definition after_reply :: "event list \<Rightarrow> event list" where
  "after_reply evs = drop 1 (dropWhile (\<lambda>e. \<not> is_Respond e) evs)"

section \<open>A sample deployment\<close>

text \<open>
  The server in \<^verbatim>\<open>/srv/app\<close> with an empty reports directory, a world in which every call
  succeeds, and the request \<^verbatim>\<open>GET /nsa-audit?url=https://example.com\<close>, answered by a small
  lighthouse result. The theorems below are exercised on them.
\<close>

definition cfg0 :: config where
  "cfg0 = \<lparr>cwd = ''/srv/app''\<rparr>"

definition package_json :: jsval where
  "package_json = JObj [(''name'', JStr ''lighthouse-api''), (''version'', JStr ''1.0.0'')]"

definition fs0 :: fs where
  "fs0 = [(''/srv'', Dir), (''/srv/app'', Dir),
          (''/srv/app/package.json'', File (JsonText package_json 2)),
          (''/srv/app/reports'', Dir)]"

definition lhr0 :: jsval where
  "lhr0 = JObj [(''lighthouseVersion'', JStr ''12.7.0''),
                (''requestedUrl'', JStr ''https://example.com''),
                (''finalUrl'', JStr ''https://example.com/''),
                (''fetchTime'', JStr ''2024-01-15T10:00:00.000Z''),
                (''runWarnings'', JArr []),
                (''categories'', JObj [(''performance'', JObj [(''score'', JNum (Finite (9 / 10)))])]),
                (''audits'', JObj [(''viewport'', JObj [(''score'', JNum (Finite 1))])]),
                (''timing'', JObj [(''total'', JNum (Finite 12345))])]"

definition at_time :: "nat \<Rightarrow> nat \<Rightarrow> date" where
  "at_time s ms = \<lparr>year = 2024, month = 1, day = 15, hours = 10, minutes = 0, seconds = s,
                    milliseconds = ms\<rparr>"

definition env0 :: env where
  "env0 = \<lparr>URL_ok = (\<lambda>s. take 7 s = ''http://'' \<or> take 8 s = ''https://''),
           chrome_launch = Inr 9222,
           run_lighthouse = (\<lambda>url port locale. Inr (JObj [(''lhr'', lhr0)])),
           chrome_kill = None,
           now_saved = at_time 0 900,
           now_replied = at_time 0 901,
           io_fault = (\<lambda>c. None),
           stack_frames = (\<lambda>msg. CHR 0x0A # ''    at file:///srv/app/dist/index.js'')\<rparr>"

definition req0 :: audit_request where
  "req0 = \<lparr>query_url = Some (QStr ''https://example.com''), query_locale = None\<rparr>"

text \<open>
  Variations of the sample: a world in which \<^verbatim>\<open>chrome.kill()\<close> rejects, one in which the launch
  fails, one in which lighthouse rejects with a given value, one in which it resolves to a
  given result, results that lack a required field or hold a falsy one, a disk that is
  full, and a reports directory that holds a file which is no JSON.
\<close>

definition env_kill_fails :: env where
  "env_kill_fails = env0\<lparr>chrome_kill := Some (new_Error env0 ''kill ESRCH'')\<rparr>"




definition env_returning :: "jsval \<Rightarrow> env" where
  "env_returning results = env0\<lparr>run_lighthouse := (\<lambda>url port locale. Inr results)\<rparr>"

definition lhr_without_categories :: jsval where
  "lhr_without_categories =
     JObj [(''finalUrl'', JStr ''https://example.com/''),
           (''fetchTime'', JStr ''2024-01-15T10:00:00.000Z''),
           (''audits'', JObj [])]"

definition lhr_empty_fetchTime :: "(string \<times> jsval) list" where
  "lhr_empty_fetchTime =
     [(''finalUrl'', JStr ''https://example.com/''),
      (''fetchTime'', JStr []),
      (''categories'', JObj []),
      (''audits'', JObj [])]"

definition lhr_null_categories :: "(string \<times> jsval) list" where
  "lhr_null_categories =
     [(''finalUrl'', JStr ''https://example.com/''),
      (''fetchTime'', JStr ''2024-01-15T10:00:00.000Z''),
      (''categories'', JNull),
      (''audits'', JObj [])]"

definition no_space :: thrown where
  "no_space =
     Error ''ENOSPC: no space left on device, write''
       (''Error: ENOSPC: no space left on device, write'' @ stack_frames env0 [])
       [(''errno'', JNum (Finite (- 28))), (''code'', JStr ''ENOSPC''), (''syscall'', JStr ''write'')]"

definition env_disk_full :: env where
  "env_disk_full = env0\<lparr>io_fault := (\<lambda>c. if c = SysWrite then Some no_space else None)\<rparr>"



definition fs_corrupt :: fs where
  "fs_corrupt = fs0 @ [(''/srv/app/reports/broken.json'', File (Unparseable ''{ finalUrl''))]"

section \<open>Properties\<close>

subsection \<open>Auxiliary facts\<close>

lemma audit_try_events:
  "audit_try cfg env u l port fs = (r, fs', evs) \<Longrightarrow> set evs \<subseteq> {Lighthouse} \<union> range ConsoleError"
  by (auto simp: audit_try_def Let_def split: sum.splits option.splits)

lemma release_Kill: "count_list (release env) Kill = 1"
  by (simp add: release_def split: option.splits)

lemma count_list_0: "x \<notin> set xs \<Longrightarrow> count_list xs x = 0"
  by (induction xs) auto

lemma before_reply_append:
  "\<forall>e \<in> set pre. \<not> is_Respond e \<Longrightarrow> before_reply (pre @ Respond n # post) = pre"
  by (simp add: before_reply_def takeWhile_append2)

lemma after_reply_append:
  "\<forall>e \<in> set pre. \<not> is_Respond e \<Longrightarrow> after_reply (pre @ Respond n # post) = post"
  by (simp add: after_reply_def dropWhile_append2)

lemma make_Error_kill [simp]:
  "make_Error (env\<lparr>chrome_kill := k\<rparr>) name msg = make_Error env name msg"
  "new_Error (env\<lparr>chrome_kill := k\<rparr>) msg = new_Error env msg"
  by (simp_all add: make_Error_def new_Error_def)

lemma fs_Error_kill [simp]: "fs_Error (env\<lparr>chrome_kill := k\<rparr>) f = fs_Error env f"
  by (cases f) simp

lemma sys_kill [simp]: "sys (env\<lparr>chrome_kill := k\<rparr>) c r = sys env c r"
  by (simp add: sys_def split: option.splits sum.splits)

lemma check_url_kill [simp]: "check_url (env\<lparr>chrome_kill := k\<rparr>) req = check_url env req"
  by (simp add: check_url_def split: option.splits sum.splits)

lemma steps_kill [simp]:
  "report_name (env\<lparr>chrome_kill := k\<rparr>) = report_name env"
  "ensure_reportsDir cfg (env\<lparr>chrome_kill := k\<rparr>) fs = ensure_reportsDir cfg env fs"
  "save_report (env\<lparr>chrome_kill := k\<rparr>) fs p v = save_report env fs p v"
  by (simp_all add: ensure_reportsDir_def save_report_def report_name_def
        split: option.splits)

lemma audit_try_kill [simp]:
  "audit_try cfg (env\<lparr>chrome_kill := k\<rparr>) u l port fs = audit_try cfg env u l port fs"
  by (simp add: audit_try_def Let_def split: sum.splits option.splits)

lemma audit_thrown:
  assumes "check_url env req = Accepted u" and "chrome_launch env = Inr port"
    and "audit_try cfg env u (locale_of req) port fs = (Inl t, fs', evs)"
  shows "reply (nsa_audit cfg env req fs) = inner_catch t \<and> disk (nsa_audit cfg env req fs) = fs'"
  using assms by (simp add: nsa_audit_def)

lemma audit_rejected:
  assumes "check_url env req = Accepted u" and "chrome_launch env = Inr port"
    and "run_lighthouse env u port (locale_of req) = Inr results"
    and "validate results = Some msg"
  shows "reply (nsa_audit cfg env req fs) = inner_catch (new_Error env msg)
       \<and> disk (nsa_audit cfg env req fs) = fs"
  using assms by (simp add: nsa_audit_def audit_try_def)

lemma first_missing_falsy:
  "p \<in> set ps \<Longrightarrow> \<not> truthy (get_prop lhr p) \<Longrightarrow> \<exists>q \<in> set ps. first_missing lhr ps = Some q"
  by (induction ps) auto

lemma error_message_new_Error [simp]: "error_message (new_Error env msg) = msg"
  by (simp add: new_Error_def make_Error_def)

lemma json_num_defined: "json_num n \<noteq> JUndefined"
  by (cases n) auto

lemma json_norm_defined: "json_norm v \<noteq> JUndefined"
  by (cases v) (auto simp: json_num_defined)

lemma json_num_idem: "json_norm (json_num n) = json_num n"
  by (cases n) auto

lemma json_norm_idem: "json_norm (json_norm v) = json_norm v"
proof (induction v)
  case (JNum n)
  show ?case by (simp add: json_num_idem)
next
  case (JArr xs)
  then show ?case by (induction xs) auto
next
  case (JObj kvs)
  have keep: "filter (\<lambda>(k, v). v \<noteq> JUndefined) (map (\<lambda>(k, v). (k, json_norm v)) ys)
      = map (\<lambda>(k, v). (k, json_norm v)) ys" for ys :: "(string \<times> jsval) list"
    by (induction ys) (auto simp: json_norm_defined)
  have ih: "json_norm (json_norm b) = json_norm b" if "(a, b) \<in> set kvs" for a b
    using JObj [OF that] by (simp add: prod_set_simps)
  show ?case
    by (auto simp: keep ih)
qed auto

lemma validate_lhr: "validate results = None \<Longrightarrow> get_prop results ''lhr'' \<noteq> JUndefined"
  by (auto simp: validate_def split: if_splits)

lemma writeFileSync_stat:
  assumes "writeFileSync fs p d = Inr fs'"
  shows "stat fs' p = Some (File d)"
proof -
  from assms have p: "p \<noteq> []" "last p \<noteq> CHR ''/''"
    by (auto simp: writeFileSync_def split: if_splits)
  then have root: "p \<noteq> ''/''" by auto
  from assms p have "fs' = AList.update p (File d) fs"
    by (auto simp: writeFileSync_def split: if_splits option.splits node.splits)
  with p root show ?thesis
    by (simp add: stat_def update_conv')
qed

lemma save_report_stat:
  assumes "save_report env fs p lhr = Inr fs'"
  shows "stat fs' p = Some (File (JsonText (json_norm lhr) 2))"
proof -
  from assms have "writeFileSync fs p (JsonText (json_norm lhr) 2) = Inr fs'"
    by (auto simp: save_report_def JSON_stringify_def sys_def split: if_splits option.splits sum.splits)
  then show ?thesis by (rule writeFileSync_stat)
qed

lemma audit_succeeded:
  assumes "check_url env req = Accepted u" and "chrome_launch env = Inr port"
    and "run_lighthouse env u port (locale_of req) = Inr results"
    and "status (reply (nsa_audit cfg env req fs)) = 200"
  obtains fs1 where
    "validate results = None"
    "save_report env fs1 (join (reportsDir cfg) (report_name env)) (get_prop results ''lhr'')
       = Inr (disk (nsa_audit cfg env req fs))"
    "get_prop (body (reply (nsa_audit cfg env req fs))) ''reportPath'' = JStr (''/reports/'' @ report_name env)"
    "get_prop (body (reply (nsa_audit cfg env req fs))) ''lighthouseResult'' = get_prop results ''lhr''"
  using assms
  by (auto simp: nsa_audit_def audit_try_def inner_catch_def Let_def split: sum.splits option.splits)

subsection \<open>The claims\<close>

text \<open>
  C1. As stated, the Chrome session is killed before the HTTP response is returned. The
  handler sends the response inside the try block (or the catch block) and calls
  \<^verbatim>\<open>chrome.kill()\<close> in the finally block, so the kill follows the response: in the sample
  audit nothing is killed before the response is sent.
\<close>

theorem kill_follows_reply_counterexample:
  "events (nsa_audit cfg0 env0 req0 fs0) = [Launch, Lighthouse, Respond 200, Kill]
   \<and> Kill \<notin> set (before_reply (events (nsa_audit cfg0 env0 req0 fs0)))"
  by code_simp

text \<open>
  C1, amended. For every request that passes the url checks and whose launch succeeds,
  whatever lighthouse, the validation and the file system do: \<^verbatim>\<open>chrome.kill()\<close> is called exactly
  once; it is called after the response has been sent and it is the first thing done after
  it; what the kill does changes neither the response nor the file system; and an error of
  the kill is logged.
\<close>

theorem kill_once_after_reply:
  assumes "check_url env req = Accepted u" and "chrome_launch env = Inr port"
  shows "count_list (events (nsa_audit cfg env req fs)) Kill = 1
       \<and> Kill \<notin> set (before_reply (events (nsa_audit cfg env req fs)))
       \<and> after_reply (events (nsa_audit cfg env req fs)) = release env
       \<and> hd (release env) = Kill
       \<and> reply (nsa_audit cfg (env\<lparr>chrome_kill := k\<rparr>) req fs) = reply (nsa_audit cfg env req fs)
       \<and> disk (nsa_audit cfg (env\<lparr>chrome_kill := k\<rparr>) req fs) = disk (nsa_audit cfg env req fs)
       \<and> (chrome_kill env \<noteq> None \<longrightarrow>
            ConsoleError ''Error killing Chrome:'' \<in> set (events (nsa_audit cfg env req fs)))"
proof -
  obtain r fs' evs where t: "audit_try cfg env u (locale_of req) port fs = (r, fs', evs)"
    by (cases "audit_try cfg env u (locale_of req) port fs") auto
  from audit_try_events [OF t] have sub: "set evs \<subseteq> {Lighthouse} \<union> range ConsoleError" .
  then have nk: "Kill \<notin> set evs" and nr: "\<forall>e \<in> set evs. \<not> is_Respond e"
    by auto
  let ?n = "case r of Inl e \<Rightarrow> 500 | Inr s \<Rightarrow> 200"
  let ?pre = "Launch # evs @ (case r of Inl e \<Rightarrow> [ConsoleError ''Lighthouse audit failed:''] | Inr s \<Rightarrow> [])"
  have ev: "events (nsa_audit cfg env req fs) = ?pre @ Respond ?n # release env"
    using assms t by (cases r) (simp_all add: nsa_audit_def)
  have pre_nr: "\<forall>e \<in> set ?pre. \<not> is_Respond e"
    using nr by (cases r) auto
  have pre_nk: "Kill \<notin> set ?pre"
    using nk by (cases r) auto
  have "count_list ?pre Kill = 0"
    using pre_nk by (rule count_list_0)
  then have c: "count_list (events (nsa_audit cfg env req fs)) Kill = 1"
    unfolding ev by (simp only: count_list_append count_list.simps release_Kill) simp
  have b: "before_reply (events (nsa_audit cfg env req fs)) = ?pre"
    unfolding ev by (rule before_reply_append [OF pre_nr])
  have a: "after_reply (events (nsa_audit cfg env req fs)) = release env"
    unfolding ev by (rule after_reply_append [OF pre_nr])
  have h: "hd (release env) = Kill"
    by (simp add: release_def split: option.splits)
  have same: "reply (nsa_audit cfg (env\<lparr>chrome_kill := k\<rparr>) req fs) = reply (nsa_audit cfg env req fs)
      \<and> disk (nsa_audit cfg (env\<lparr>chrome_kill := k\<rparr>) req fs) = disk (nsa_audit cfg env req fs)"
    using assms t by (cases r) (simp_all add: nsa_audit_def)
  have logged: "chrome_kill env \<noteq> None \<longrightarrow>
      ConsoleError ''Error killing Chrome:'' \<in> set (events (nsa_audit cfg env req fs))"
    unfolding ev by (auto simp: release_def)
  from c b pre_nk a h same logged show ?thesis by simp
qed

text \<open>
  The amended C1 on the sample audit in a world where the kill rejects.
\<close>

theorem kill_once_after_reply_witness:
  "check_url env_kill_fails req0 = Accepted ''https://example.com''
   \<and> chrome_launch env_kill_fails = Inr 9222
   \<and> events (nsa_audit cfg0 env_kill_fails req0 fs0)
       = [Launch, Lighthouse, Respond 200, Kill, ConsoleError ''Error killing Chrome:'']
   \<and> count_list (events (nsa_audit cfg0 env_kill_fails req0 fs0)) Kill = 1
   \<and> after_reply (events (nsa_audit cfg0 env_kill_fails req0 fs0)) = release env_kill_fails
   \<and> reply (nsa_audit cfg0 (env_kill_fails\<lparr>chrome_kill := None\<rparr>) req0 fs0)
       = reply (nsa_audit cfg0 env_kill_fails req0 fs0)"
proof -
  have h1: "check_url env_kill_fails req0 = Accepted ''https://example.com''" by code_simp
  have h2: "chrome_launch env_kill_fails = Inr 9222" by code_simp
  have h3: "events (nsa_audit cfg0 env_kill_fails req0 fs0)
       = [Launch, Lighthouse, Respond 200, Kill, ConsoleError ''Error killing Chrome:'']" by code_simp
  from kill_once_after_reply [OF h1 h2, of cfg0 fs0 None] h1 h2 h3 show ?thesis by blast
qed

text \<open>
  C2. The listing is to give the reports newest first. The comparator takes as the time of
  a file name only what follows its last hyphen, the milliseconds: three reports saved at
  10:00:00.900, 10:00:01.500 and 10:00:02.100 are listed oldest first.
\<close>

theorem list_sorted_by_milliseconds_only:
  "body (reply (reports_list cfg0 env0
      (disk (nsa_audit cfg0 (env0\<lparr>now_saved := at_time 2 100\<rparr>) req0
        (disk (nsa_audit cfg0 (env0\<lparr>now_saved := at_time 1 500\<rparr>) req0
          (disk (nsa_audit cfg0 (env0\<lparr>now_saved := at_time 0 900\<rparr>) req0 fs0))))))))
   = JArr [JStr ''lighthouse-report-2024-01-15T10-00-00-900Z.json'',
           JStr ''lighthouse-report-2024-01-15T10-00-01-500Z.json'',
           JStr ''lighthouse-report-2024-01-15T10-00-02-100Z.json'']"
  by code_simp




text \<open>
  C4. A request whose url parameter is missing or does not parse as a URL is to be answered
  with a 400. The url \<^verbatim>\<open>%\<close> (the request \<^verbatim>\<open>GET /nsa-audit?url=%25\<close>) is no URL, yet the
  server answers it with a 500: \<^verbatim>\<open>decodeURIComponent\<close> throws before the URL is parsed, outside
  the inner try, and the outer catch answers. No browser is launched.
\<close>

theorem malformed_escape_is_500:
  "reply (nsa_audit cfg env \<lparr>query_url = Some (QStr ''%''), query_locale = l\<rparr> fs) =
     \<lparr>status = 500,
      body = JObj [(''success'', JBool False), (''error'', JStr ''URI malformed''),
                   (''details'', JStr (''URIError: URI malformed'' @ stack_frames env ''URI malformed''))]\<rparr>
   \<and> events (nsa_audit cfg env \<lparr>query_url = Some (QStr ''%''), query_locale = l\<rparr> fs) =
       [ConsoleError ''Lighthouse audit failed:'', Respond 500]"
  by (simp add: nsa_audit_def check_url_def qtoString_def decodeURIComponent_def outer_catch_def
      make_Error_def)

text \<open>
  C5. When lighthouse resolves to null or undefined, to a result without an inner report
  (lhr undefined or null), or to one whose inner report lacks one of finalUrl, fetchTime,
  categories and audits, the request is answered with a 500 and success false, and the file
  system is left as it was: nothing is written.
\<close>

theorem invalid_result_not_saved:
  assumes "check_url env req = Accepted u" and "chrome_launch env = Inr port"
    and "run_lighthouse env u port (locale_of req) = Inr results"
    and "results = JNull \<or> results = JUndefined
         \<or> get_prop results ''lhr'' = JUndefined \<or> get_prop results ''lhr'' = JNull
         \<or> (\<exists>p \<in> set requiredProperties. get_prop (get_prop results ''lhr'') p = JUndefined)"
  shows "status (reply (nsa_audit cfg env req fs)) = 500
       \<and> get_prop (body (reply (nsa_audit cfg env req fs))) ''success'' = JBool False
       \<and> disk (nsa_audit cfg env req fs) = fs"
proof -
  have "\<exists>msg. validate results = Some msg"
  proof (cases "truthy results \<and> truthy (get_prop results ''lhr'')")
    case False
    then show ?thesis by (auto simp: validate_def)
  next
    case True
    with assms(4) obtain p where "p \<in> set requiredProperties"
      and "get_prop (get_prop results ''lhr'') p = JUndefined"
      by auto
    then have "\<exists>q \<in> set requiredProperties. first_missing (get_prop results ''lhr'') requiredProperties = Some q"
      by (intro first_missing_falsy) auto
    with True show ?thesis by (auto simp: validate_def)
  qed
  then obtain msg where "validate results = Some msg" ..
  from audit_rejected [OF assms(1-3) this] show ?thesis
    by (simp add: inner_catch_def)
qed

text \<open>
  C5 on a result whose inner report has no categories.
\<close>

theorem invalid_result_not_saved_witness:
  "check_url (env_returning (JObj [(''lhr'', lhr_without_categories)])) req0 = Accepted ''https://example.com''
   \<and> chrome_launch (env_returning (JObj [(''lhr'', lhr_without_categories)])) = Inr 9222
   \<and> get_prop (get_prop (JObj [(''lhr'', lhr_without_categories)]) ''lhr'') ''categories'' = JUndefined
   \<and> status (reply (nsa_audit cfg0 (env_returning (JObj [(''lhr'', lhr_without_categories)])) req0 fs0)) = 500
   \<and> get_prop (body (reply (nsa_audit cfg0 (env_returning (JObj [(''lhr'', lhr_without_categories)])) req0 fs0)))
        ''success'' = JBool False
   \<and> disk (nsa_audit cfg0 (env_returning (JObj [(''lhr'', lhr_without_categories)])) req0 fs0) = fs0"
proof -
  let ?r = "JObj [(''lhr'', lhr_without_categories)]"
  have h1: "check_url (env_returning ?r) req0 = Accepted ''https://example.com''" by code_simp
  have h2: "chrome_launch (env_returning ?r) = Inr 9222" by code_simp
  have h3: "run_lighthouse (env_returning ?r) ''https://example.com'' 9222 (locale_of req0) = Inr ?r"
    by code_simp
  have c: "get_prop (get_prop ?r ''lhr'') ''categories'' = JUndefined" by code_simp
  then have h4: "?r = JNull \<or> ?r = JUndefined
         \<or> get_prop ?r ''lhr'' = JUndefined \<or> get_prop ?r ''lhr'' = JNull
         \<or> (\<exists>p \<in> set requiredProperties. get_prop (get_prop ?r ''lhr'') p = JUndefined)"
    by (auto simp: requiredProperties_def)
  from invalid_result_not_saved [OF h1 h2 h3 h4, of cfg0 fs0] h1 h2 c show ?thesis by blast
qed

text \<open>
  C6. When lighthouse has resolved to a result and the audit is answered with a 200, the
  response names the identity \<^verbatim>\<open>/reports/name\<close> and carries the whole inner report of that
  result; the file of that name holds the JSON text of the whole inner report, with nothing
  of it left out; and \<^verbatim>\<open>GET /reports/name\<close> (unless the operating system fails the read)
  answers 200 with the value that text denotes, whose serialisation is byte for byte the
  serialisation of the inner report lighthouse gave.
\<close>

theorem save_then_get_roundtrip:
  assumes "check_url env req = Accepted u" and "chrome_launch env = Inr port"
    and "run_lighthouse env u port (locale_of req) = Inr results"
    and "status (reply (nsa_audit cfg env req fs)) = 200"
    and "io_fault env' SysRead = None"
  shows "get_prop (body (reply (nsa_audit cfg env req fs))) ''reportPath''
          = JStr (''/reports/'' @ report_name env)
       \<and> get_prop (body (reply (nsa_audit cfg env req fs))) ''lighthouseResult''
          = get_prop results ''lhr''
       \<and> JSON_stringify (get_prop results ''lhr'') 2
          = Some (JsonText (json_norm (get_prop results ''lhr'')) 2)
       \<and> readFileSync (disk (nsa_audit cfg env req fs)) (join (reportsDir cfg) (report_name env))
          = Inr (JsonText (json_norm (get_prop results ''lhr'')) 2)
       \<and> reply (reports_get cfg env' (report_name env) (disk (nsa_audit cfg env req fs)))
          = \<lparr>status = 200, body = json_norm (get_prop results ''lhr'')\<rparr>
       \<and> JSON_stringify (body (reply (reports_get cfg env' (report_name env)
            (disk (nsa_audit cfg env req fs))))) 0
          = JSON_stringify (get_prop results ''lhr'') 0"
proof -
  let ?out = "nsa_audit cfg env req fs"
  let ?lhr = "get_prop results ''lhr''"
  from assms(1-4) obtain fs1 where
    v: "validate results = None"
    and s: "save_report env fs1 (join (reportsDir cfg) (report_name env)) ?lhr = Inr (disk ?out)"
    and rp: "get_prop (body (reply ?out)) ''reportPath'' = JStr (''/reports/'' @ report_name env)"
    and lr: "get_prop (body (reply ?out)) ''lighthouseResult'' = ?lhr"
    by (rule audit_succeeded)
  from validate_lhr [OF v] have def: "?lhr \<noteq> JUndefined" .
  from save_report_stat [OF s]
  have st: "stat (disk ?out) (join (reportsDir cfg) (report_name env))
      = Some (File (JsonText (json_norm ?lhr) 2))" .
  then have rd: "readFileSync (disk ?out) (join (reportsDir cfg) (report_name env))
      = Inr (JsonText (json_norm ?lhr) 2)"
    by (simp add: readFileSync_def)
  from st rd assms(5)
  have g: "reply (reports_get cfg env' (report_name env) (disk ?out))
      = \<lparr>status = 200, body = json_norm ?lhr\<rparr>"
    by (simp add: reports_get_def Let_def existsSync_def sys_def)
  have w: "JSON_stringify (json_norm ?lhr) 0 = JSON_stringify ?lhr 0"
    using def by (simp add: JSON_stringify_def json_norm_defined json_norm_idem)
  have t: "JSON_stringify ?lhr 2 = Some (JsonText (json_norm ?lhr) 2)"
    using def by (simp add: JSON_stringify_def)
  from rp lr t rd g w show ?thesis by simp
qed

text \<open>
  C6 on the sample audit: the report read back is the report lighthouse gave, with all its
  fields.
\<close>

theorem save_then_get_roundtrip_witness:
  "check_url env0 req0 = Accepted ''https://example.com''
   \<and> chrome_launch env0 = Inr 9222
   \<and> run_lighthouse env0 ''https://example.com'' 9222 (locale_of req0) = Inr (JObj [(''lhr'', lhr0)])
   \<and> status (reply (nsa_audit cfg0 env0 req0 fs0)) = 200
   \<and> io_fault env0 SysRead = None
   \<and> report_name env0 = ''lighthouse-report-2024-01-15T10-00-00-900Z.json''
   \<and> get_prop (JObj [(''lhr'', lhr0)]) ''lhr'' = lhr0
   \<and> json_norm lhr0 = lhr0
   \<and> get_prop (body (reply (nsa_audit cfg0 env0 req0 fs0))) ''reportPath''
       = JStr (''/reports/'' @ report_name env0)
   \<and> get_prop (body (reply (nsa_audit cfg0 env0 req0 fs0))) ''lighthouseResult'' = lhr0
   \<and> readFileSync (disk (nsa_audit cfg0 env0 req0 fs0)) (join (reportsDir cfg0) (report_name env0))
       = Inr (JsonText lhr0 2)
   \<and> reply (reports_get cfg0 env0 (report_name env0) (disk (nsa_audit cfg0 env0 req0 fs0)))
       = \<lparr>status = 200, body = lhr0\<rparr>"
proof -
  let ?r = "JObj [(''lhr'', lhr0)]"
  have h1: "check_url env0 req0 = Accepted ''https://example.com''" by code_simp
  have h2: "chrome_launch env0 = Inr 9222" by code_simp
  have h3: "run_lighthouse env0 ''https://example.com'' 9222 (locale_of req0) = Inr ?r" by code_simp
  have h4: "status (reply (nsa_audit cfg0 env0 req0 fs0)) = 200" by code_simp
  have h5: "io_fault env0 SysRead = None" by code_simp
  have n: "report_name env0 = ''lighthouse-report-2024-01-15T10-00-00-900Z.json''" by code_simp
  have l: "get_prop ?r ''lhr'' = lhr0" by simp
  have j: "json_norm lhr0 = lhr0" by code_simp
  note R = save_then_get_roundtrip [OF h1 h2 h3 h4 h5, unfolded l j]
  from R h1 h2 h3 h4 h5 n l j show ?thesis by blast
qed

text \<open>
  C7. As stated, an identity that does not exist is answered with a 404. The store of the
  sample holds no report at all, yet the identity \<^verbatim>\<open>../package.json\<close> is answered with a 200
  and the identity \<^verbatim>\<open>.\<close> with a 500: what decides is the path the identity is joined to,
  which may lie outside the reports directory or be the directory itself.
\<close>

theorem get_outside_store_counterexample:
  "readdirSync fs0 (reportsDir cfg0) = Inr []
   \<and> body (reply (reports_list cfg0 env0 fs0)) = JArr []
   \<and> status (reply (reports_get cfg0 env0 ''../package.json'' fs0)) = 200
   \<and> status (reply (reports_get cfg0 env0 ''.'' fs0)) = 500
   \<and> JSON_parse (JsonText package_json 2) = Some package_json"
  by code_simp

text \<open>
  C7, amended. \<^verbatim>\<open>GET /reports/:filename\<close> answers 404 with the body
  \<^verbatim>\<open>{error: "Report not found"}\<close> when nothing exists at the path that joining the identity to
  the reports directory gives, and only then; it answers 500 when something exists at that
  path, is read, and its text is no JSON; it never changes the file system.
\<close>

theorem get_not_found_or_corrupt:
  "(\<not> existsSync fs (join (reportsDir cfg) filename) \<longrightarrow>
      reply (reports_get cfg env filename fs)
        = \<lparr>status = 404, body = JObj [(''error'', JStr ''Report not found'')]\<rparr>)
   \<and> (existsSync fs (join (reportsDir cfg) filename)
        \<and> sys env SysRead (readFileSync fs (join (reportsDir cfg) filename)) = Inr t
        \<and> JSON_parse t = None \<longrightarrow>
      reply (reports_get cfg env filename fs)
        = \<lparr>status = 500, body = JObj [(''error'', JStr ''Failed to read report'')]\<rparr>)
   \<and> (status (reply (reports_get cfg env filename fs)) = 404)
       = (\<not> existsSync fs (join (reportsDir cfg) filename))
   \<and> disk (reports_get cfg env filename fs) = fs"
  by (auto simp: reports_get_def Let_def split: sum.splits option.splits)

text \<open>
  The amended C7 on a reports directory that holds one file, which is no JSON.
\<close>

theorem get_not_found_or_corrupt_witness:
  "\<not> existsSync fs_corrupt (join (reportsDir cfg0) ''lighthouse-report-1999.json'')
   \<and> reply (reports_get cfg0 env0 ''lighthouse-report-1999.json'' fs_corrupt)
        = \<lparr>status = 404, body = JObj [(''error'', JStr ''Report not found'')]\<rparr>
   \<and> existsSync fs_corrupt (join (reportsDir cfg0) ''broken.json'')
   \<and> sys env0 SysRead (readFileSync fs_corrupt (join (reportsDir cfg0) ''broken.json''))
        = Inr (Unparseable ''{ finalUrl'')
   \<and> JSON_parse (Unparseable ''{ finalUrl'') = None
   \<and> reply (reports_get cfg0 env0 ''broken.json'' fs_corrupt)
        = \<lparr>status = 500, body = JObj [(''error'', JStr ''Failed to read report'')]\<rparr>"
proof -
  have a: "\<not> existsSync fs_corrupt (join (reportsDir cfg0) ''lighthouse-report-1999.json'')"
    by code_simp
  have b1: "existsSync fs_corrupt (join (reportsDir cfg0) ''broken.json'')" by code_simp
  have b2: "sys env0 SysRead (readFileSync fs_corrupt (join (reportsDir cfg0) ''broken.json''))
        = Inr (Unparseable ''{ finalUrl'')" by code_simp
  have b3: "JSON_parse (Unparseable ''{ finalUrl'') = None" by simp
  from get_not_found_or_corrupt [of fs_corrupt cfg0 "''lighthouse-report-1999.json''" env0]
    get_not_found_or_corrupt [of fs_corrupt cfg0 "''broken.json''" env0 "Unparseable ''{ finalUrl''"]
    a b1 b2 b3
  show ?thesis by blast
qed

text \<open>
  C8. When the result passes the validation and the writing of the report file fails, the
  request is answered with a 500 and success false, the error saying that the report could
  not be saved, nothing is written, and \<^verbatim>\<open>chrome.kill()\<close> is still called once.
\<close>

theorem write_failure_is_failure:
  assumes "check_url env req = Accepted u" and "chrome_launch env = Inr port"
    and "run_lighthouse env u port (locale_of req) = Inr results"
    and "validate results = None"
    and "ensure_reportsDir cfg env fs = Inr fs1"
    and "save_report env fs1 (join (reportsDir cfg) (report_name env)) (get_prop results ''lhr'')
           = Inl writeError"
  shows "status (reply (nsa_audit cfg env req fs)) = 500
       \<and> get_prop (body (reply (nsa_audit cfg env req fs))) ''success'' = JBool False
       \<and> get_prop (body (reply (nsa_audit cfg env req fs))) ''error''
           = JStr (''Failed to save report: '' @ write_message writeError)
       \<and> count_list (events (nsa_audit cfg env req fs)) Kill = 1
       \<and> disk (nsa_audit cfg env req fs) = fs1"
proof -
  have t: "audit_try cfg env u (locale_of req) port fs =
      (Inl (new_Error env (''Failed to save report: '' @ write_message writeError)), fs1,
       [Lighthouse, ConsoleError ''Error saving report:''])"
    using assms(3-6) by (simp add: audit_try_def)
  have "count_list (release env) Kill = 1" by (rule release_Kill)
  with t assms(1,2) show ?thesis
    by (simp add: nsa_audit_def inner_catch_def)
qed

text \<open>
  C8 on the sample audit with a full disk.
\<close>

theorem write_failure_is_failure_witness:
  "validate (JObj [(''lhr'', lhr0)]) = None
   \<and> ensure_reportsDir cfg0 env_disk_full fs0 = Inr fs0
   \<and> save_report env_disk_full fs0 (join (reportsDir cfg0) (report_name env_disk_full))
        (get_prop (JObj [(''lhr'', lhr0)]) ''lhr'') = Inl no_space
   \<and> status (reply (nsa_audit cfg0 env_disk_full req0 fs0)) = 500
   \<and> get_prop (body (reply (nsa_audit cfg0 env_disk_full req0 fs0))) ''success'' = JBool False
   \<and> get_prop (body (reply (nsa_audit cfg0 env_disk_full req0 fs0))) ''error''
       = JStr (''Failed to save report: '' @ write_message no_space)
   \<and> count_list (events (nsa_audit cfg0 env_disk_full req0 fs0)) Kill = 1
   \<and> disk (nsa_audit cfg0 env_disk_full req0 fs0) = fs0"
proof -
  let ?r = "JObj [(''lhr'', lhr0)]"
  have h1: "check_url env_disk_full req0 = Accepted ''https://example.com''" by code_simp
  have h2: "chrome_launch env_disk_full = Inr 9222" by code_simp
  have h3: "run_lighthouse env_disk_full ''https://example.com'' 9222 (locale_of req0) = Inr ?r"
    by code_simp
  have h4: "validate ?r = None" by code_simp
  have h5: "ensure_reportsDir cfg0 env_disk_full fs0 = Inr fs0" by code_simp
  have h6: "save_report env_disk_full fs0 (join (reportsDir cfg0) (report_name env_disk_full))
        (get_prop ?r ''lhr'') = Inl no_space"
    by code_simp
  from write_failure_is_failure [OF h1 h2 h3 h4 h5 h6] h4 h5 h6 show ?thesis by blast
qed

text \<open>
  C9. A required field that the inner report owns with a falsy value is treated as a
  missing one: the request is answered with a 500 whose error names a missing required
  property, and nothing is written.
\<close>

theorem falsy_field_rejected:
  assumes "check_url env req = Accepted u" and "chrome_launch env = Inr port"
    and "run_lighthouse env u port (locale_of req) = Inr results"
    and "get_prop results ''lhr'' = JObj kvs"
    and "p \<in> set requiredProperties" and "map_of kvs p = Some v" and "\<not> truthy v"
  shows "status (reply (nsa_audit cfg env req fs)) = 500
       \<and> get_prop (body (reply (nsa_audit cfg env req fs))) ''success'' = JBool False
       \<and> (\<exists>q \<in> set requiredProperties.
            get_prop (body (reply (nsa_audit cfg env req fs))) ''error''
              = JStr (''Lighthouse results missing required property: '' @ q))
       \<and> disk (nsa_audit cfg env req fs) = fs"
proof -
  from assms(4) have tr: "truthy results" by (cases results) auto
  have "\<not> truthy (get_prop (get_prop results ''lhr'') p)"
    using assms(4,6,7) by simp
  from first_missing_falsy [OF assms(5) this]
  obtain q where q: "q \<in> set requiredProperties"
    and fm: "first_missing (get_prop results ''lhr'') requiredProperties = Some q" by blast
  have "validate results = Some (''Lighthouse results missing required property: '' @ q)"
    using tr assms(4) fm by (simp add: validate_def)
  from audit_rejected [OF assms(1-3) this] q show ?thesis
    by (auto simp: inner_catch_def)
qed

text \<open>
  C9 on an inner report whose fetchTime is the empty string and on one whose categories
  is null.
\<close>

theorem falsy_field_rejected_witness:
  "map_of lhr_empty_fetchTime ''fetchTime'' = Some (JStr []) \<and> \<not> truthy (JStr [])
   \<and> status (reply (nsa_audit cfg0 (env_returning (JObj [(''lhr'', JObj lhr_empty_fetchTime)])) req0 fs0)) = 500
   \<and> get_prop (body (reply (nsa_audit cfg0 (env_returning (JObj [(''lhr'', JObj lhr_empty_fetchTime)])) req0 fs0)))
        ''error'' = JStr ''Lighthouse results missing required property: fetchTime''
   \<and> disk (nsa_audit cfg0 (env_returning (JObj [(''lhr'', JObj lhr_empty_fetchTime)])) req0 fs0) = fs0
   \<and> map_of lhr_null_categories ''categories'' = Some JNull \<and> \<not> truthy JNull
   \<and> status (reply (nsa_audit cfg0 (env_returning (JObj [(''lhr'', JObj lhr_null_categories)])) req0 fs0)) = 500
   \<and> get_prop (body (reply (nsa_audit cfg0 (env_returning (JObj [(''lhr'', JObj lhr_null_categories)])) req0 fs0)))
        ''error'' = JStr ''Lighthouse results missing required property: categories''
   \<and> disk (nsa_audit cfg0 (env_returning (JObj [(''lhr'', JObj lhr_null_categories)])) req0 fs0) = fs0"
proof -
  let ?r1 = "JObj [(''lhr'', JObj lhr_empty_fetchTime)]"
  let ?r2 = "JObj [(''lhr'', JObj lhr_null_categories)]"
  have a1: "check_url (env_returning ?r1) req0 = Accepted ''https://example.com''" by code_simp
  have a2: "chrome_launch (env_returning ?r1) = Inr 9222" by code_simp
  have a3: "run_lighthouse (env_returning ?r1) ''https://example.com'' 9222 (locale_of req0) = Inr ?r1"
    by code_simp
  have a4: "get_prop ?r1 ''lhr'' = JObj lhr_empty_fetchTime" by simp
  have a5: "''fetchTime'' \<in> set requiredProperties" by (simp add: requiredProperties_def)
  have a6: "map_of lhr_empty_fetchTime ''fetchTime'' = Some (JStr [])" by code_simp
  have a7: "\<not> truthy (JStr [])" by simp
  have a8: "get_prop (body (reply (nsa_audit cfg0 (env_returning ?r1) req0 fs0)))
        ''error'' = JStr ''Lighthouse results missing required property: fetchTime''" by code_simp
  have b1: "check_url (env_returning ?r2) req0 = Accepted ''https://example.com''" by code_simp
  have b2: "chrome_launch (env_returning ?r2) = Inr 9222" by code_simp
  have b3: "run_lighthouse (env_returning ?r2) ''https://example.com'' 9222 (locale_of req0) = Inr ?r2"
    by code_simp
  have b4: "get_prop ?r2 ''lhr'' = JObj lhr_null_categories" by simp
  have b5: "''categories'' \<in> set requiredProperties" by (simp add: requiredProperties_def)
  have b6: "map_of lhr_null_categories ''categories'' = Some JNull" by code_simp
  have b7: "\<not> truthy JNull" by simp
  have b8: "get_prop (body (reply (nsa_audit cfg0 (env_returning ?r2) req0 fs0)))
        ''error'' = JStr ''Lighthouse results missing required property: categories''" by code_simp
  from falsy_field_rejected [OF a1 a2 a3 a4 a5 a6 a7, of cfg0 fs0]
    falsy_field_rejected [OF b1 b2 b3 b4 b5 b6 b7, of cfg0 fs0]
    a6 a7 a8 b6 b7 b8
  show ?thesis by blast
qed

text \<open>
  C10. The identity handed to \<^verbatim>\<open>GET /reports/:filename\<close> is joined to the reports directory
  unchecked: the identity \<^verbatim>\<open>../package.json\<close> names a file outside the reports directory,
  and the server answers with the content of that file, not with a 404.
\<close>

theorem get_escapes_reports_directory:
  "reportsDir cfg0 = ''/srv/app/reports''
   \<and> join (reportsDir cfg0) ''../package.json'' = ''/srv/app/package.json''
   \<and> reply (reports_get cfg0 env0 ''../package.json'' fs0) = \<lparr>status = 200, body = package_json\<rparr>"
  by code_simp

end
